theory Spec2Isabelle
  imports Complex_Main "HOL-Library.Multiset"
begin

section \<open>System health report: benchmark.py\<close>

text \<open>
  The program samples three utilisation percentages, grades each against a fixed pair of
  thresholds, averages the grade scores into an overall grade and logs a thirteen-line
  report to the terminal and to a file named after the date.

  Metric readings are Python floats and the thresholds are Python ints; Python compares
  a float with an int by value, so readings and thresholds are modelled as reals.
  Letter grades are the Python strings \<open>"A"\<close>, \<open>"B"\<close>, \<open>"C"\<close>, kept as strings.
\<close>

subsection \<open>Errors\<close>

text \<open>
  \<open>KeyError k\<close> is what a dict lookup raises on a missing key \<open>k\<close>. \<open>Raised s\<close> stands
  for any exception coming out of an external collaborator (psutil, logging, the file
  system), named by its description.
\<close>

datatype error = KeyError string | Raised string

subsection \<open>Grader (lines 54-60)\<close>

definition grade :: "real \<Rightarrow> real \<times> real \<Rightarrow> string" where
  "grade val thresholds =
     (if val < fst thresholds then ''A''
      else if val < snd thresholds then ''B''
      else ''C'')"

subsection \<open>Aggregation (lines 78-85)\<close>

definition grade_mapping :: "string \<rightharpoonup> int" where
  "grade_mapping = [''A'' \<mapsto> 3, ''B'' \<mapsto> 2, ''C'' \<mapsto> 1]"

text \<open>Python's \<open>d[k]\<close>: the value, or KeyError carrying the key.\<close>

definition getitem :: "(string \<rightharpoonup> int) \<Rightarrow> string \<Rightarrow> error + int" where
  "getitem d k = (case d k of None \<Rightarrow> Inl (KeyError k) | Some v \<Rightarrow> Inr v)"

text \<open>
  Lines 78-85, as a function of the three metric grades. The three lookups run left to
  right, so the first missing key is the one reported. \<open>average_score\<close> is the true
  quotient of an int by 3; the cut points are the decimal literals of the source.
\<close>

definition overall_grade :: "string \<Rightarrow> string \<Rightarrow> string \<Rightarrow> error + string" where
  "overall_grade grade_cpu grade_mem grade_disk =
     (case getitem grade_mapping grade_cpu of
        Inl e \<Rightarrow> Inl e
      | Inr s_cpu \<Rightarrow>
     (case getitem grade_mapping grade_mem of
        Inl e \<Rightarrow> Inl e
      | Inr s_mem \<Rightarrow>
     (case getitem grade_mapping grade_disk of
        Inl e \<Rightarrow> Inl e
      | Inr s_disk \<Rightarrow>
          (let average_score = real_of_int (s_cpu + s_mem + s_disk) / 3
           in Inr (if average_score \<ge> 2.67 then ''A''
                   else if average_score \<ge> 1.67 then ''B''
                   else ''C'')))))"

subsection \<open>Dates and strftime\<close>

text \<open>
  What \<open>datetime.datetime.now()\<close> returns, to the second. Python's datetime keeps
  \<open>1 \<le> year \<le> 9999\<close>, \<open>1 \<le> month \<le> 12\<close>, \<open>1 \<le> day \<le> 31\<close> and the usual clock ranges.
\<close>

record datetime =
  year :: nat
  month :: nat
  day :: nat
  hour :: nat
  minute :: nat
  second :: nat

definition valid_datetime :: "datetime \<Rightarrow> bool" where
  "valid_datetime t \<longleftrightarrow>
     1 \<le> year t \<and> year t \<le> 9999 \<and> 1 \<le> month t \<and> month t \<le> 12 \<and>
     1 \<le> day t \<and> day t \<le> 31 \<and> hour t \<le> 23 \<and> minute t \<le> 59 \<and> second t \<le> 59"

definition digit_char :: "nat \<Rightarrow> char" where
  "digit_char n = ''0123456789'' ! n"

text \<open>The \<open>w\<close> low-order decimal digits of \<open>n\<close>: \<open>n\<close> zero-padded to width \<open>w\<close> when \<open>n < 10 ^ w\<close>.\<close>

fun digits :: "nat \<Rightarrow> nat \<Rightarrow> string" where
  "digits 0 n = []"
| "digits (Suc w) n = digits w (n div 10) @ [digit_char (n mod 10)]"

text \<open>
  The strftime directives the program uses, as the Python documentation gives them:
  \<open>%Y\<close> is the year with century as four digits (0001 to 9999), and \<open>%m\<close>, \<open>%d\<close>,
  \<open>%H\<close>, \<open>%M\<close>, \<open>%S\<close> are zero-padded to two digits. Any other character after \<open>%\<close>
  is left as it is. (The C library of some platforms drops the padding of years below
  1000; the program reads its disk usage from \<open>C:\<close>, a platform that pads.)
\<close>

definition directive :: "datetime \<Rightarrow> char \<Rightarrow> string" where
  "directive t d =
     (if d = CHR ''Y'' then digits 4 (year t)
      else if d = CHR ''m'' then digits 2 (month t)
      else if d = CHR ''d'' then digits 2 (day t)
      else if d = CHR ''H'' then digits 2 (hour t)
      else if d = CHR ''M'' then digits 2 (minute t)
      else if d = CHR ''S'' then digits 2 (second t)
      else [CHR ''%'', d])"

fun strftime :: "datetime \<Rightarrow> string \<Rightarrow> string" where
  "strftime t [] = []"
| "strftime t [c] = [c]"
| "strftime t (c # d # fmt) =
     (if c = CHR ''%'' then directive t d @ strftime t fmt
      else c # strftime t (d # fmt))"

subsection \<open>Log file name (lines 8-9)\<close>

definition current_date :: "datetime \<Rightarrow> string" where
  "current_date today = strftime today ''%Y%d%m''"

definition log_filename :: "datetime \<Rightarrow> string" where
  "log_filename today = current_date today @ ''_system_health.log''"

subsection \<open>Actions: state and exceptions\<close>

text \<open>
  A Python statement acts on the world and either returns a value or raises. Effects
  made before a raise stay made, so an action returns the world in both cases.
\<close>

type_synonym ('w, 'a) action = "'w \<Rightarrow> (error + 'a) \<times> 'w"

definition bind :: "('w, 'a) action \<Rightarrow> ('a \<Rightarrow> ('w, 'b) action) \<Rightarrow> ('w, 'b) action" where
  "bind m f w = (case m w of (Inl e, w') \<Rightarrow> (Inl e, w') | (Inr a, w') \<Rightarrow> f a w')"

definition lift :: "error + 'a \<Rightarrow> ('w, 'a) action" where
  "lift r w = (r, w)"

subsection \<open>The report (lines 33-89)\<close>

text \<open>
  The external collaborators of \<open>generate_report\<close>: the clock, the three psutil readings,
  \<open>logger.info\<close>, and Python's conversion of a float to text inside an f-string.
\<close>

record 'w ops =
  now :: "'w \<Rightarrow> datetime"
  cpu_percent :: "real \<Rightarrow> ('w, real) action"
  virtual_memory_percent :: "('w, real) action"
  disk_usage_percent :: "string \<Rightarrow> ('w, real) action"
  logger_info :: "string \<Rightarrow> ('w, unit) action"
  float_str :: "real \<Rightarrow> string"

definition generate_report :: "'w ops \<Rightarrow> ('w, unit) action" where
  "generate_report ops w0 =
     (let t = now ops w0 in
      (bind (logger_info ops ''===== System Health Report ====='') (\<lambda>_.
       bind (logger_info ops (''Report generated on: '' @ strftime t ''%Y-%m-%d %H:%M:%S'')) (\<lambda>_.
       bind (cpu_percent ops 1) (\<lambda>cpu_usage.
       bind (virtual_memory_percent ops) (\<lambda>mem_usage.
       bind (disk_usage_percent ops (''C:'' @ [CHR 0x5C])) (\<lambda>disk_usage.
       bind (logger_info ops ''System Metrics:'') (\<lambda>_.
       bind (logger_info ops (''CPU Usage: '' @ float_str ops cpu_usage @ ''%'')) (\<lambda>_.
       bind (logger_info ops (''Memory Usage: '' @ float_str ops mem_usage @ ''%'')) (\<lambda>_.
       bind (logger_info ops (''Disk Usage: '' @ float_str ops disk_usage @ ''%'')) (\<lambda>_.
       let grade_cpu = grade cpu_usage (30, 60);
           grade_mem = grade mem_usage (50, 75);
           grade_disk = grade disk_usage (40, 70) in
       bind (logger_info ops ''Metric Grades:'') (\<lambda>_.
       bind (logger_info ops (''CPU Grade: '' @ grade_cpu)) (\<lambda>_.
       bind (logger_info ops (''Memory Grade: '' @ grade_mem)) (\<lambda>_.
       bind (logger_info ops (''Disk Grade: '' @ grade_disk)) (\<lambda>_.
       bind (lift (overall_grade grade_cpu grade_mem grade_disk)) (\<lambda>overall.
       bind (logger_info ops ''Overall System Grade:'') (\<lambda>_.
       bind (logger_info ops (''Final Grade: '' @ overall)) (\<lambda>_.
       logger_info ops ''===== End of Report =====''
       ))))))))))))))))) w0)"

subsection \<open>The sink (lines 14-28)\<close>

text \<open>
  The terminal and the file system, as lists of lines, and the number of log records the
  running process has created (the logging module stamps each record with the time of
  its creation). Opening the log file is taken to succeed, and a handler that cannot
  write reports the error itself instead of raising, as the logging module does: in this
  sink \<open>logger.info\<close> always returns.
\<close>

record world =
  console :: "string list"
  files :: "string \<Rightarrow> string list option"
  created :: nat

text \<open>
  What one run of the program is given: the clock readings at lines 8 and 39, the
  \<open>asctime\<close> of the \<open>k\<close>-th log record, what each psutil call returns or raises, and the
  text of a float.
\<close>

record env =
  start_time :: datetime
  report_time :: datetime
  asctime :: "nat \<Rightarrow> string"
  cpu :: "error + real"
  mem :: "error + real"
  disk :: "error + real"
  repr :: "real \<Rightarrow> string"

definition DEBUG :: nat where "DEBUG = 10"
definition INFO :: nat where "INFO = 20"

definition getLevelName :: "nat \<Rightarrow> string" where
  "getLevelName l = (if l = DEBUG then ''DEBUG'' else if l = INFO then ''INFO''
                     else ''Level '' @ digits 2 l)"

text \<open>The formatter \<open>'%(asctime)s - %(levelname)s - %(message)s'\<close>.\<close>

definition formatter :: "string \<Rightarrow> nat \<Rightarrow> string \<Rightarrow> string" where
  "formatter time levelno message = time @ '' - '' @ getLevelName levelno @ '' - '' @ message"

text \<open>\<open>FileHandler(log_filename, mode='w')\<close> opens the file at once: it is created or emptied.\<close>

definition open_w :: "string \<Rightarrow> world \<Rightarrow> world" where
  "open_w name w = w\<lparr>files := (files w)(name \<mapsto> [])\<rparr>"

text \<open>A stream handler writes the formatted record to the terminal when its level allows.\<close>

definition ch_handle :: "nat \<Rightarrow> string \<Rightarrow> world \<Rightarrow> world" where
  "ch_handle levelno line w =
     (if levelno \<ge> DEBUG then w\<lparr>console := console w @ [line]\<rparr> else w)"

text \<open>The file handler appends the formatted record to its open file.\<close>

definition fh_handle :: "string \<Rightarrow> nat \<Rightarrow> string \<Rightarrow> world \<Rightarrow> world" where
  "fh_handle name levelno line w =
     (if levelno \<ge> DEBUG
      then w\<lparr>files := (files w)(name \<mapsto> (case files w name of None \<Rightarrow> [] | Some ls \<Rightarrow> ls) @ [line])\<rparr>
      else w)"

text \<open>
  \<open>logger.log\<close> at a level: the logger's own level is DEBUG; an enabled record is
  created, formatted and passed to the console handler, then to the file handler.
\<close>

definition logger_log :: "env \<Rightarrow> string \<Rightarrow> nat \<Rightarrow> string \<Rightarrow> (world, unit) action" where
  "logger_log e name levelno message w =
     (if levelno \<ge> DEBUG
      then (let line = formatter (asctime e (created w)) levelno message
            in (Inr (), fh_handle name levelno line
                          (ch_handle levelno line (w\<lparr>created := Suc (created w)\<rparr>))))
      else (Inr (), w))"

definition logging_ops :: "env \<Rightarrow> string \<Rightarrow> world ops" where
  "logging_ops e name =
     \<lparr>now = (\<lambda>w. report_time e),
      cpu_percent = (\<lambda>interval w. (cpu e, w)),
      virtual_memory_percent = (\<lambda>w. (mem e, w)),
      disk_usage_percent = (\<lambda>path w. (disk e, w)),
      logger_info = logger_log e name INFO,
      float_str = repr e\<rparr>"

text \<open>
  One run of the program: a new process configures logging (which opens the file), then
  calls \<open>generate_report\<close>.
\<close>

definition main :: "env \<Rightarrow> (world, unit) action" where
  "main e w =
     (let name = log_filename (start_time e)
      in generate_report (logging_ops e name) (open_w name (w\<lparr>created := 0\<rparr>)))"

subsection \<open>The specification's vocabulary\<close>

text \<open>The three letter grades of the data model.\<close>

definition letter_grades :: "string set" where
  "letter_grades = {''A'', ''B'', ''C''}"

text \<open>
  The specification's score table \<open>{A:3, B:2, C:1}\<close>, written as a function on the three
  letter grades (any other string has no score; 0 stands for that).
\<close>

definition score :: "string \<Rightarrow> int" where
  "score g = (if g = ''A'' then 3 else if g = ''B'' then 2 else if g = ''C'' then 1 else 0)"

text \<open>
  The specification's aggregator, in its words: the arithmetic mean of the three scores,
  \<open>A\<close> if the mean is at least 2.67, else \<open>B\<close> if it is at least 1.67, else \<open>C\<close>.
\<close>

definition aggregate_spec :: "string \<Rightarrow> string \<Rightarrow> string \<Rightarrow> string" where
  "aggregate_spec g_cpu g_mem g_disk =
     (let mean = real_of_int (score g_cpu + score g_mem + score g_disk) / 3
      in if mean \<ge> 2.67 then ''A'' else if mean \<ge> 1.67 then ''B'' else ''C'')"

text \<open>
  The specification's total order \<open>A > B > C\<close> on letter grades: \<open>grade_ge g h\<close> reads
  "\<open>g\<close> is at least as good as \<open>h\<close>".
\<close>

definition grade_ge :: "string \<Rightarrow> string \<Rightarrow> bool" where
  "grade_ge g h \<longleftrightarrow>
     (g, h) \<in> set [(''A'', ''A''), (''A'', ''B''), (''A'', ''C''),
                   (''B'', ''B''), (''B'', ''C''), (''C'', ''C'')]"

text \<open>Reading a run of decimal digits back as a number.\<close>

definition digit_val :: "char \<Rightarrow> nat" where
  "digit_val c = of_char c - 48"

definition is_digit :: "char \<Rightarrow> bool" where
  "is_digit c \<longleftrightarrow> c \<in> set ''0123456789''"

definition decimal :: "string \<Rightarrow> nat" where
  "decimal cs = foldl (\<lambda>acc c. 10 * acc + digit_val c) 0 cs"

subsection \<open>The report as the specification lays it out\<close>

text \<open>A world in which nothing has been printed or written yet.\<close>

definition fresh :: world where
  "fresh = \<lparr>console = [], files = (\<lambda>_. None), created = 0\<rparr>"

text \<open>The lines one run of the program prints, starting from nothing.\<close>

definition run_lines :: "env \<Rightarrow> string list" where
  "run_lines e = console (snd (main e fresh))"

text \<open>
  The specification's log line format \<open><timestamp> - <LEVEL> - <message>\<close> at level INFO:
  the message at position \<open>k\<close> carries the time of the \<open>k\<close>-th record.
\<close>

fun stamp :: "env \<Rightarrow> nat \<Rightarrow> string list \<Rightarrow> string list" where
  "stamp e k [] = []"
| "stamp e k (m # ms) = (asctime e k @ '' - INFO - '' @ m) # stamp e (Suc k) ms"

text \<open>
  The specification's report body (section 6): the header line and the generation
  timestamp \<open>YYYY-MM-DD HH:MM:SS\<close>, then the metrics section, the grades section, the
  overall grade and the footer.
\<close>

definition report_head :: "datetime \<Rightarrow> string list" where
  "report_head t =
     [''===== System Health Report ====='',
      ''Report generated on: '' @ digits 4 (year t) @ ''-'' @ digits 2 (month t) @ ''-''
         @ digits 2 (day t) @ '' '' @ digits 2 (hour t) @ '':'' @ digits 2 (minute t)
         @ '':'' @ digits 2 (second t)]"

definition report_body :: "(real \<Rightarrow> string) \<Rightarrow> datetime \<Rightarrow> real \<Rightarrow> real \<Rightarrow> real \<Rightarrow> string list" where
  "report_body str t c m d =
     report_head t @
     [''System Metrics:'',
      ''CPU Usage: '' @ str c @ ''%'',
      ''Memory Usage: '' @ str m @ ''%'',
      ''Disk Usage: '' @ str d @ ''%'',
      ''Metric Grades:'',
      ''CPU Grade: '' @ grade c (30, 60),
      ''Memory Grade: '' @ grade m (50, 75),
      ''Disk Grade: '' @ grade d (40, 70),
      ''Overall System Grade:'',
      ''Final Grade: '' @ aggregate_spec (grade c (30, 60)) (grade m (50, 75)) (grade d (40, 70)),
      ''===== End of Report ====='']"

text \<open>
  The messages of a run and its result, read off the three readings: the whole body when
  all three arrive, and only the two lines logged before the first reading is taken when
  one of them raises.
\<close>

definition emitted :: "env \<Rightarrow> string list" where
  "emitted e =
     (case cpu e of Inl _ \<Rightarrow> report_head (report_time e) | Inr c \<Rightarrow>
     (case mem e of Inl _ \<Rightarrow> report_head (report_time e) | Inr m \<Rightarrow>
     (case disk e of Inl _ \<Rightarrow> report_head (report_time e) | Inr d \<Rightarrow>
        report_body (repr e) (report_time e) c m d)))"

definition outcome :: "env \<Rightarrow> error + unit" where
  "outcome e =
     (case cpu e of Inl x \<Rightarrow> Inl x | Inr c \<Rightarrow>
     (case mem e of Inl x \<Rightarrow> Inl x | Inr m \<Rightarrow>
     (case disk e of Inl x \<Rightarrow> Inl x | Inr d \<Rightarrow> Inr ())))"

subsection \<open>Scripted collaborators\<close>

text \<open>
  To follow a failure through \<open>generate_report\<close>, the collaborators are replaced by
  scripted ones. The world is the list of calls made so far; the script says which call,
  by its position, raises and what. A call is recorded when it is made, whether it
  returns or raises.
\<close>

datatype call = Info string | CpuPercent real | VirtualMemory | DiskUsage string

definition scripted :: "(nat \<Rightarrow> error option) \<Rightarrow> call \<Rightarrow> 'a \<Rightarrow> (call list, 'a) action" where
  "scripted fails c v tr =
     (case fails (length tr) of None \<Rightarrow> (Inr v, tr @ [c]) | Some x \<Rightarrow> (Inl x, tr @ [c]))"

definition scripted_ops ::
  "(nat \<Rightarrow> error option) \<Rightarrow> datetime \<Rightarrow> real \<Rightarrow> real \<Rightarrow> real \<Rightarrow> (real \<Rightarrow> string) \<Rightarrow> call list ops" where
  "scripted_ops fails t c m d str =
     \<lparr>now = (\<lambda>tr. t),
      cpu_percent = (\<lambda>interval. scripted fails (CpuPercent interval) c),
      virtual_memory_percent = scripted fails VirtualMemory m,
      disk_usage_percent = (\<lambda>path. scripted fails (DiskUsage path) d),
      logger_info = (\<lambda>msg. scripted fails (Info msg) ()),
      float_str = str\<rparr>"

text \<open>The script in which no call raises.\<close>

definition never :: "nat \<Rightarrow> error option" where
  "never k = None"

text \<open>The sixteen calls of a run in which nothing raises, in order.\<close>

definition report_calls :: "(real \<Rightarrow> string) \<Rightarrow> datetime \<Rightarrow> real \<Rightarrow> real \<Rightarrow> real \<Rightarrow> call list" where
  "report_calls str t c m d =
     map Info (report_head t) @
     [CpuPercent 1, VirtualMemory, DiskUsage (''C:'' @ [CHR 0x5C])] @
     map Info (drop 2 (report_body str t c m d))"

subsection \<open>A sink whose file writes can fail\<close>

text \<open>
  The program's sink again, with the faults the specification lists for it (file not
  writable, disk full): \<open>write_fails k\<close> says that writing the \<open>k\<close>-th record to the log
  file raises. A logging handler wraps its write in \<open>try\<close> / \<open>except Exception\<close> and
  calls \<open>handleError\<close>, which prints a report on the terminal and returns; \<open>error_report k\<close>
  is that report.
\<close>

record faults =
  write_fails :: "nat \<Rightarrow> bool"
  error_report :: "nat \<Rightarrow> string list"

definition fh_emit :: "faults \<Rightarrow> nat \<Rightarrow> string \<Rightarrow> nat \<Rightarrow> string \<Rightarrow> world \<Rightarrow> world" where
  "fh_emit f k name levelno line w =
     (if levelno \<ge> DEBUG
      then (if write_fails f k
            then w\<lparr>console := console w @ error_report f k\<rparr>
            else w\<lparr>files := (files w)(name \<mapsto>
                     (case files w name of None \<Rightarrow> [] | Some ls \<Rightarrow> ls) @ [line])\<rparr>)
      else w)"

text \<open>The two handlers on one record: the console handler, then the file handler.\<close>

definition call_handlers :: "env \<Rightarrow> faults \<Rightarrow> string \<Rightarrow> nat \<Rightarrow> string \<Rightarrow> world \<Rightarrow> world" where
  "call_handlers e f name levelno message w =
     (let line = formatter (asctime e (created w)) levelno message
      in fh_emit f (created w) name levelno line
           (ch_handle levelno line (w\<lparr>created := Suc (created w)\<rparr>)))"

definition faulty_logger_log ::
  "env \<Rightarrow> faults \<Rightarrow> string \<Rightarrow> nat \<Rightarrow> string \<Rightarrow> (world, unit) action" where
  "faulty_logger_log e f name levelno message w =
     (if levelno \<ge> DEBUG then (Inr (), call_handlers e f name levelno message w)
      else (Inr (), w))"

definition faulty_ops :: "env \<Rightarrow> faults \<Rightarrow> string \<Rightarrow> world ops" where
  "faulty_ops e f name = (logging_ops e name)\<lparr>logger_info := faulty_logger_log e f name INFO\<rparr>"

definition faulty_main :: "env \<Rightarrow> faults \<Rightarrow> (world, unit) action" where
  "faulty_main e f w =
     (let name = log_filename (start_time e)
      in generate_report (faulty_ops e f name) (open_w name (w\<lparr>created := 0\<rparr>)))"

text \<open>
  No fault at all, and a full disk: every write to the log file fails, and the report of
  each failure is shown by its first line.
\<close>

definition no_faults :: faults where
  "no_faults = \<lparr>write_fails = (\<lambda>k. False), error_report = (\<lambda>k. [])\<rparr>"

definition disk_full :: faults where
  "disk_full = \<lparr>write_fails = (\<lambda>k. True), error_report = (\<lambda>k. [''--- Logging error ---''])\<rparr>"

subsection \<open>Example runs\<close>

definition run_date :: datetime where
  "run_date = \<lparr>year = 2026, month = 11, day = 3, hour = 20, minute = 3, second = 7\<rparr>"

text \<open>
  A run on 3 November 2026 with readings 12, 50 and 70 percent, the same run on a host
  without the volume \<open>C:\<close>, and the script in which the disk reading (the fifth call)
  raises.
\<close>

definition example_env :: env where
  "example_env =
     \<lparr>start_time = run_date, report_time = run_date,
      asctime = (\<lambda>k. ''2026-11-03 20:03:08,'' @ digits 3 k),
      cpu = Inr 12, mem = Inr 50, disk = Inr 70,
      repr = (\<lambda>r. if r = 12 then ''12.0'' else if r = 50 then ''50.0'' else ''70.0'')\<rparr>"

definition no_volume_env :: env where
  "no_volume_env = example_env\<lparr>disk := Inl (Raised ''FileNotFoundError'')\<rparr>"

definition disk_fails :: "nat \<Rightarrow> error option" where
  "disk_fails k = (if k = 4 then Some (Raised ''FileNotFoundError'') else None)"

section \<open>Properties of the grader and the aggregation\<close>

lemma grade_mapping_simps:
  "grade_mapping ''A'' = Some 3" "grade_mapping ''B'' = Some 2" "grade_mapping ''C'' = Some 1"
  by (simp_all add: grade_mapping_def)

lemma dom_grade_mapping: "dom grade_mapping = letter_grades"
  by (auto simp: grade_mapping_def letter_grades_def split: if_splits)

lemma getitem_letter:
  "g \<in> letter_grades \<Longrightarrow> getitem grade_mapping g = Inr (score g)"
  by (auto simp: letter_grades_def getitem_def grade_mapping_def score_def)

lemma score_range: "g \<in> letter_grades \<Longrightarrow> score g \<in> {1, 2, 3}"
  by (auto simp: letter_grades_def score_def)

lemma grade_in_letter_grades: "grade val thresholds \<in> letter_grades"
  by (simp add: grade_def letter_grades_def)

lemma grade_ge_score:
  "g \<in> letter_grades \<Longrightarrow> h \<in> letter_grades \<Longrightarrow> grade_ge g h \<longleftrightarrow> score h \<le> score g"
  by (auto simp: letter_grades_def grade_ge_def score_def)

lemma overall_grade_letters:
  assumes "g1 \<in> letter_grades" "g2 \<in> letter_grades" "g3 \<in> letter_grades"
  shows "overall_grade g1 g2 g3 =
           Inr (let average_score = real_of_int (score g1 + score g2 + score g3) / 3
                in if average_score \<ge> 2.67 then ''A''
                   else if average_score \<ge> 1.67 then ''B''
                   else ''C'')"
  using assms by (simp add: overall_grade_def getitem_letter)

text \<open>The decimal cut points, read on the integer sum of the three scores.\<close>

lemma mean_cut_points:
  fixes s :: int
  shows "real_of_int s / 3 \<ge> 2.67 \<longleftrightarrow> 9 \<le> s"
    and "real_of_int s / 3 \<ge> 1.67 \<longleftrightarrow> 6 \<le> s"
proof -
  show "real_of_int s / 3 \<ge> 2.67 \<longleftrightarrow> 9 \<le> s"
  proof
    assume "real_of_int s / 3 \<ge> 2.67"
    then have "real_of_int 8 < real_of_int s" by simp
    then have "8 < s" by (simp only: of_int_less_iff)
    then show "9 \<le> s" by simp
  next
    assume "9 \<le> s"
    then have "real_of_int 9 \<le> real_of_int s" by (simp only: of_int_le_iff)
    then show "real_of_int s / 3 \<ge> 2.67" by simp
  qed
  show "real_of_int s / 3 \<ge> 1.67 \<longleftrightarrow> 6 \<le> s"
  proof
    assume "real_of_int s / 3 \<ge> 1.67"
    then have "real_of_int 5 < real_of_int s" by simp
    then have "5 < s" by (simp only: of_int_less_iff)
    then show "6 \<le> s" by simp
  next
    assume "6 \<le> s"
    then have "real_of_int 6 \<le> real_of_int s" by (simp only: of_int_le_iff)
    then show "real_of_int s / 3 \<ge> 1.67" by simp
  qed
qed

lemma overall_grade_sum:
  assumes "g1 \<in> letter_grades" "g2 \<in> letter_grades" "g3 \<in> letter_grades"
  shows "overall_grade g1 g2 g3 =
           Inr (if 9 \<le> score g1 + score g2 + score g3 then ''A''
                else if 6 \<le> score g1 + score g2 + score g3 then ''B'' else ''C'')"
  unfolding overall_grade_letters [OF assms] Let_def mean_cut_points ..

lemma score_sum_9:
  assumes "g1 \<in> letter_grades" "g2 \<in> letter_grades" "g3 \<in> letter_grades"
  shows "score g1 + score g2 + score g3 = 9 \<longleftrightarrow> g1 = ''A'' \<and> g2 = ''A'' \<and> g3 = ''A''"
proof -
  have le: "score g \<le> 3" and eq: "score g = 3 \<longleftrightarrow> g = ''A''" for g
    by (simp_all add: score_def)
  show ?thesis using le [of g1] le [of g2] le [of g3] eq [of g1] eq [of g2] eq [of g3]
    by linarith
qed

text \<open>
  The source computes \<open>average_score\<close> and the cut points in binary floating point. The
  outcome is the one of the exact computation: the attainable means \<open>s / 3\<close> stay more
  than \<open>1/1000\<close> away from both cut points, far more than a rounding error, so any
  value within \<open>1/1000\<close> of the mean compared with any cut points within \<open>1/1000\<close> of
  the literals falls into the same bucket.
\<close>

lemma cut_points_robust:
  fixes s :: int and x hi lo :: real
  assumes "3 \<le> s" "s \<le> 9"
    and "\<bar>x - real_of_int s / 3\<bar> \<le> 1 / 1000"
    and "\<bar>hi - 2.67\<bar> \<le> 1 / 1000" "\<bar>lo - 1.67\<bar> \<le> 1 / 1000"
  shows "(if x \<ge> hi then ''A'' else if x \<ge> lo then ''B'' else ''C'') =
         (if real_of_int s / 3 \<ge> 2.67 then ''A''
          else if real_of_int s / 3 \<ge> 1.67 then ''B'' else ''C'')"
proof -
  have near: "x \<le> real_of_int s / 3 + 1 / 1000" "real_of_int s / 3 - 1 / 1000 \<le> x"
    "hi \<le> 2.671" "2.669 \<le> hi" "lo \<le> 1.671" "1.669 \<le> lo"
    using assms(3-5)[unfolded abs_le_iff] by simp_all
  from assms(1,2) have "s \<in> {3, 4, 5, 6, 7, 8, 9}" by auto
  moreover have "s = k \<Longrightarrow> k \<in> {3, 4, 5, 6, 7, 8, 9} \<Longrightarrow> ?thesis" for k
    using near by auto
  ultimately show ?thesis by blast
qed

text \<open>
  C2. For every triple of letter grades the aggregation of the source is the
  specification's aggregator: each grade is mapped to its score by the table
  \<open>{A:3, B:2, C:1}\<close>, the three scores are averaged, and the result is \<open>A\<close> if the mean is
  at least the decimal literal 2.67, else \<open>B\<close> if it is at least 1.67, else \<open>C\<close>; no
  lookup fails.
\<close>

theorem overall_grade_refines_aggregate:
  assumes "g_cpu \<in> letter_grades" "g_mem \<in> letter_grades" "g_disk \<in> letter_grades"
  shows "overall_grade g_cpu g_mem g_disk = Inr (aggregate_spec g_cpu g_mem g_disk)"
  using assms by (simp add: overall_grade_letters aggregate_spec_def)

theorem overall_grade_refines_aggregate_witness:
  "''A'' \<in> letter_grades \<and> ''B'' \<in> letter_grades \<and> ''C'' \<in> letter_grades
   \<and> overall_grade ''A'' ''B'' ''C'' = Inr (aggregate_spec ''A'' ''B'' ''C'')
   \<and> aggregate_spec ''A'' ''B'' ''C'' = ''B''"
proof -
  have m: "''A'' \<in> letter_grades" "''B'' \<in> letter_grades" "''C'' \<in> letter_grades"
    by (simp_all add: letter_grades_def)
  have "aggregate_spec ''A'' ''B'' ''C'' = ''B''"
    by (simp add: aggregate_spec_def score_def)
  then show ?thesis
    using m overall_grade_refines_aggregate [OF m] by simp
qed

text \<open>
  C3 (as stated, refuted). The claim has two grades \<open>A\<close> and one grade \<open>B\<close> aggregate to
  \<open>A\<close> because the mean \<open>8/3\<close> would meet the cut point 2.67. It does not: the
  aggregation of \<open>A, A, B\<close> is not \<open>A\<close>.
\<close>

theorem two_A_one_B_is_not_A:
  "overall_grade ''A'' ''A'' ''B'' \<noteq> Inr ''A''"
  by (simp add: overall_grade_def getitem_def grade_mapping_def)

text \<open>
  C3 (amended). The cut point 2.67 lies strictly above the attainable mean \<open>8/3\<close> of the
  scores 3, 3, 2, so two grades \<open>A\<close> and one grade \<open>B\<close>, in any position, aggregate to the
  overall grade \<open>B\<close>.
\<close>

theorem two_A_one_B_is_B:
  "real_of_int (score ''A'' + score ''A'' + score ''B'') / 3 = 8 / 3
   \<and> (8 :: real) / 3 < 2.67
   \<and> overall_grade ''A'' ''A'' ''B'' = Inr ''B''
   \<and> overall_grade ''A'' ''B'' ''A'' = Inr ''B''
   \<and> overall_grade ''B'' ''A'' ''A'' = Inr ''B''"
  by (simp add: overall_grade_def getitem_def grade_mapping_def score_def)

text \<open>
  C4. For every triple of letter grades the overall grade is determined by the integer
  sum \<open>s\<close> of the three scores: it is \<open>A\<close> exactly when \<open>s = 9\<close>, which is exactly when all
  three grades are \<open>A\<close>; it is \<open>B\<close> exactly when \<open>6 \<le> s \<le> 8\<close>; it is \<open>C\<close> exactly when
  \<open>s \<le> 5\<close>. In particular two \<open>A\<close> and one \<open>B\<close> give \<open>B\<close>, and two \<open>B\<close> and one \<open>C\<close> give \<open>C\<close>.
\<close>

theorem overall_grade_by_score_sum:
  assumes "g1 \<in> letter_grades" "g2 \<in> letter_grades" "g3 \<in> letter_grades"
  shows "(overall_grade g1 g2 g3 = Inr ''A'' \<longleftrightarrow> score g1 + score g2 + score g3 = 9)
       \<and> (score g1 + score g2 + score g3 = 9 \<longleftrightarrow> g1 = ''A'' \<and> g2 = ''A'' \<and> g3 = ''A'')
       \<and> (overall_grade g1 g2 g3 = Inr ''B'' \<longleftrightarrow>
            6 \<le> score g1 + score g2 + score g3 \<and> score g1 + score g2 + score g3 \<le> 8)
       \<and> (overall_grade g1 g2 g3 = Inr ''C'' \<longleftrightarrow> score g1 + score g2 + score g3 \<le> 5)
       \<and> overall_grade ''A'' ''A'' ''B'' = Inr ''B''
       \<and> overall_grade ''B'' ''B'' ''C'' = Inr ''C''"
proof -
  have le: "score g \<le> 3" for g
    by (simp add: score_def)
  have up: "score g1 + score g2 + score g3 \<le> 9"
    using le [of g1] le [of g2] le [of g3] by linarith
  have a: "overall_grade g1 g2 g3 = Inr ''A'' \<longleftrightarrow> score g1 + score g2 + score g3 = 9"
    using up by (simp add: overall_grade_sum [OF assms])
  have b: "overall_grade g1 g2 g3 = Inr ''B'' \<longleftrightarrow>
            6 \<le> score g1 + score g2 + score g3 \<and> score g1 + score g2 + score g3 \<le> 8"
    using up by (auto simp: overall_grade_sum [OF assms])
  have c: "overall_grade g1 g2 g3 = Inr ''C'' \<longleftrightarrow> score g1 + score g2 + score g3 \<le> 5"
    by (auto simp: overall_grade_sum [OF assms])
  have closed: "overall_grade ''A'' ''A'' ''B'' = Inr ''B''"
    "overall_grade ''B'' ''B'' ''C'' = Inr ''C''"
    by (simp_all add: overall_grade_def getitem_def grade_mapping_def)
  from a b c closed score_sum_9 [OF assms] show ?thesis by blast
qed

theorem overall_grade_by_score_sum_witness:
  "''A'' \<in> letter_grades \<and> ''B'' \<in> letter_grades
   \<and> score ''A'' + score ''B'' + score ''B'' = 7
   \<and> overall_grade ''A'' ''B'' ''B'' = Inr ''B''"
proof -
  have m: "''A'' \<in> letter_grades" "''B'' \<in> letter_grades"
    by (simp_all add: letter_grades_def)
  have s: "score ''A'' + score ''B'' + score ''B'' = 7"
    by (simp add: score_def)
  from overall_grade_by_score_sum [OF m(1) m(2) m(2)] s
  have "overall_grade ''A'' ''B'' ''B'' = Inr ''B''" by simp
  with m s show ?thesis by simp
qed

text \<open>
  C5. For every threshold pair with \<open>low < high\<close> and all readings \<open>value1 < value2\<close>, the
  grade of \<open>value1\<close> is at least as good as the grade of \<open>value2\<close> in the order
  \<open>A > B > C\<close>: the grade never improves as the reading grows.
\<close>

theorem grade_monotone:
  assumes "low < high" and "value1 < value2"
  shows "grade_ge (grade value1 (low, high)) (grade value2 (low, high))"
  using assms by (simp add: grade_def grade_ge_def)

theorem grade_monotone_witness:
  "(30 :: real) < 60 \<and> (29 :: real) < 30
   \<and> grade_ge (grade 29 (30, 60)) (grade 30 (30, 60))
   \<and> grade 29 (30, 60) = ''A'' \<and> grade 30 (30, 60) = ''B''"
proof -
  have h: "(30 :: real) < 60" "(29 :: real) < 30" by simp_all
  show ?thesis using grade_monotone [OF h] by (simp add: grade_def)
qed

text \<open>
  C6. For every triple of letter grades, every permutation of the triple aggregates to
  the same overall grade.
\<close>

theorem overall_grade_permutation:
  assumes "g1 \<in> letter_grades" "g2 \<in> letter_grades" "g3 \<in> letter_grades"
    and perm: "mset [h1, h2, h3] = mset [g1, g2, g3]"
  shows "overall_grade h1 h2 h3 = overall_grade g1 g2 g3"
proof -
  from perm have "set [h1, h2, h3] = set [g1, g2, g3]"
    by (rule mset_eq_setD)
  with assms(1-3) have h: "h1 \<in> letter_grades" "h2 \<in> letter_grades" "h3 \<in> letter_grades"
    by auto
  from perm have "sum_mset (image_mset score (mset [h1, h2, h3])) =
                  sum_mset (image_mset score (mset [g1, g2, g3]))"
    by (rule arg_cong)
  then have "score h1 + score h2 + score h3 = score g1 + score g2 + score g3"
    by simp
  then show ?thesis
    by (simp add: overall_grade_letters [OF h] overall_grade_letters [OF assms(1-3)])
qed

theorem overall_grade_permutation_witness:
  "''A'' \<in> letter_grades \<and> ''C'' \<in> letter_grades
   \<and> mset [''C'', ''A'', ''A''] = mset [''A'', ''A'', ''C'']
   \<and> overall_grade ''C'' ''A'' ''A'' = overall_grade ''A'' ''A'' ''C''
   \<and> overall_grade ''A'' ''A'' ''C'' = Inr ''B''"
proof -
  have m: "''A'' \<in> letter_grades" "''C'' \<in> letter_grades"
    by (simp_all add: letter_grades_def)
  have p: "mset [''C'', ''A'', ''A''] = mset [''A'', ''A'', ''C'']"
    by simp
  have v: "overall_grade ''A'' ''A'' ''C'' = Inr ''B''"
    by (simp add: overall_grade_def getitem_def grade_mapping_def)
  show ?thesis
    using m p v overall_grade_permutation [OF m(1) m(1) m(2) p] by simp
qed

section \<open>The log file name\<close>

lemma digits_2: "digits 2 n = [digit_char (n div 10 mod 10), digit_char (n mod 10)]"
proof -
  have "digits (Suc (Suc 0)) n = [digit_char (n div 10 mod 10), digit_char (n mod 10)]"
    by simp
  then show ?thesis by (simp only: numeral_2_eq_2)
qed

lemma digits_4:
  "digits 4 n = [digit_char (n div 1000 mod 10), digit_char (n div 100 mod 10),
                 digit_char (n div 10 mod 10), digit_char (n mod 10)]"
proof -
  have "digits (Suc (Suc (Suc (Suc 0)))) n =
          [digit_char (n div 1000 mod 10), digit_char (n div 100 mod 10),
                 digit_char (n div 10 mod 10), digit_char (n mod 10)]"
    by (simp add: div_mult2_eq [symmetric])
  moreover have "(4::nat) = Suc (Suc (Suc (Suc 0)))" by simp
  ultimately show ?thesis by (simp only:)
qed

lemma length_digits: "length (digits w n) = w"
  by (induction w arbitrary: n) simp_all

lemma digit_char_cases:
  assumes "d < 10"
  shows "digit_val (digit_char d) = d \<and> is_digit (digit_char d)"
proof -
  from assms have "d \<in> {0, 1, 2, 3, 4, 5, 6, 7, 8, 9}" by auto
  then show ?thesis
    by (elim insertE emptyE) (simp_all add: digit_char_def digit_val_def is_digit_def)
qed

lemma digit_val_digit_char: "d < 10 \<Longrightarrow> digit_val (digit_char d) = d"
  by (simp add: digit_char_cases)

lemma is_digit_digit_char: "d < 10 \<Longrightarrow> is_digit (digit_char d)"
  by (simp add: digit_char_cases)

lemma decimal_snoc: "decimal (cs @ [c]) = 10 * decimal cs + digit_val c"
  by (simp add: decimal_def)

lemma decimal_digits: "decimal (digits w n) = n mod 10 ^ w"
proof (induction w arbitrary: n)
  case 0
  show ?case by (simp add: decimal_def)
next
  case (Suc w)
  have "decimal (digits (Suc w) n) = 10 * ((n div 10) mod 10 ^ w) + n mod 10"
    by (simp add: decimal_snoc Suc.IH digit_val_digit_char)
  also have "\<dots> = n mod 10 ^ Suc w"
    by (simp add: mod_mult2_eq)
  finally show ?case .
qed

lemma all_digits: "list_all is_digit (digits w n)"
  by (induction w arbitrary: n) (simp_all add: is_digit_digit_char)

lemma current_date_eq:
  "current_date t = digits 4 (year t) @ digits 2 (day t) @ digits 2 (month t)"
  by (simp add: current_date_def directive_def)

text \<open>
  C7. For every run date the log file name is the eight date digits followed by
  \<open>_system_health.log\<close>, and the digits are the year (four), then the day (two), then the
  month (two): read back as numbers they give the year, the day and the month of the run,
  in that order, not year, month, day.
\<close>

theorem log_filename_year_day_month:
  assumes "valid_datetime t"
  shows "log_filename t =
           digits 4 (year t) @ digits 2 (day t) @ digits 2 (month t) @ ''_system_health.log''
       \<and> length (current_date t) = 8
       \<and> list_all is_digit (current_date t)
       \<and> decimal (take 4 (current_date t)) = year t
       \<and> decimal (take 2 (drop 4 (current_date t))) = day t
       \<and> decimal (drop 6 (current_date t)) = month t"
proof -
  from assms have range: "year t < 10 ^ 4" "day t < 10 ^ 2" "month t < 10 ^ 2"
    by (simp_all add: valid_datetime_def)
  have name: "log_filename t =
      digits 4 (year t) @ digits 2 (day t) @ digits 2 (month t) @ ''_system_health.log''"
    by (simp add: log_filename_def current_date_eq)
  have len: "length (current_date t) = 8"
    by (simp add: current_date_eq length_digits)
  have dig: "list_all is_digit (current_date t)"
    by (simp add: current_date_eq all_digits)
  have y: "decimal (take 4 (current_date t)) = year t"
    using range(1) by (simp add: current_date_eq length_digits decimal_digits)
  have d: "decimal (take 2 (drop 4 (current_date t))) = day t"
    using range(2) by (simp add: current_date_eq length_digits decimal_digits)
  have m: "decimal (drop 6 (current_date t)) = month t"
    using range(3) by (simp add: current_date_eq length_digits decimal_digits)
  from name len dig y d m show ?thesis by simp
qed

theorem log_filename_year_day_month_witness:
  "valid_datetime run_date
   \<and> log_filename run_date = ''20260311_system_health.log''
   \<and> decimal (take 2 (drop 4 (current_date run_date))) = day run_date
   \<and> decimal (drop 6 (current_date run_date)) = month run_date"
proof -
  have v: "valid_datetime run_date"
    by (simp add: valid_datetime_def run_date_def)
  have n: "log_filename run_date = ''20260311_system_health.log''"
    by (simp add: log_filename_def current_date_eq digits_4 digits_2 digit_char_def run_date_def)
  show ?thesis
    using v n log_filename_year_day_month [OF v] by simp
qed

section \<open>One run of the program\<close>

lemma overall_grade_of_grades:
  "overall_grade (grade a p) (grade b q) (grade c r) =
     Inr (aggregate_spec (grade a p) (grade b q) (grade c r))"
  by (simp add: overall_grade_letters grade_in_letter_grades aggregate_spec_def)

lemma logger_info_step:
  "logger_log e name INFO msg w =
     (Inr (), w\<lparr>created := Suc (created w),
               console := console w @ [asctime e (created w) @ '' - INFO - '' @ msg],
               files := (files w)(name \<mapsto>
                  (case files w name of None \<Rightarrow> [] | Some ls \<Rightarrow> ls)
                    @ [asctime e (created w) @ '' - INFO - '' @ msg])\<rparr>)"
  by (simp add: logger_log_def ch_handle_def fh_handle_def formatter_def getLevelName_def
      INFO_def DEBUG_def Let_def)

lemma timestamp_format:
  "strftime t ''%Y-%m-%d %H:%M:%S'' =
     digits 4 (year t) @ ''-'' @ digits 2 (month t) @ ''-'' @ digits 2 (day t) @ '' ''
       @ digits 2 (hour t) @ '':'' @ digits 2 (minute t) @ '':'' @ digits 2 (second t)"
  by (simp add: directive_def)

lemma main_effect:
  "main e w =
     (outcome e,
      w\<lparr>created := length (emitted e),
        console := console w @ stamp e 0 (emitted e),
        files := (files w)(log_filename (start_time e) \<mapsto> stamp e 0 (emitted e))\<rparr>)"
  by (cases "cpu e"; cases "mem e"; cases "disk e")
     (simp_all add: main_def generate_report_def logging_ops_def bind_def lift_def open_w_def
       logger_info_step directive_def overall_grade_of_grades emitted_def outcome_def
       report_body_def report_head_def Let_def)

lemma run_lines_eq: "run_lines e = stamp e 0 (emitted e)"
  by (simp add: run_lines_def main_effect fresh_def)

lemma length_stamp: "length (stamp e k ms) = length ms"
  by (induction ms arbitrary: k) simp_all

lemma emitted_not_empty: "emitted e \<noteq> []"
  by (simp add: emitted_def report_body_def report_head_def split: sum.split)

lemma run_lines_not_empty: "run_lines e \<noteq> []"
  using emitted_not_empty [of e] by (cases "emitted e") (simp_all add: run_lines_eq)

lemma same_date_same_file:
  assumes "year t2 = year t1" "month t2 = month t1" "day t2 = day t1"
  shows "log_filename t2 = log_filename t1"
  using assms by (simp add: log_filename_def current_date_eq)

lemma take_stamp: "take n (stamp e k ms) = stamp e k (take n ms)"
proof (induction ms arbitrary: n k)
  case Nil
  show ?case by simp
next
  case (Cons a ms)
  then show ?case by (cases n) simp_all
qed

lemma drop_stamp: "drop n (stamp e k ms) = stamp e (k + n) (drop n ms)"
proof (induction ms arbitrary: n k)
  case Nil
  show ?case by simp
next
  case (Cons a ms)
  then show ?case by (cases n) simp_all
qed

lemma digits_3:
  "digits 3 n = [digit_char (n div 100 mod 10), digit_char (n div 10 mod 10), digit_char (n mod 10)]"
proof -
  have "digits (Suc (Suc (Suc 0))) n =
          [digit_char (n div 100 mod 10), digit_char (n div 10 mod 10), digit_char (n mod 10)]"
    by (simp add: div_mult2_eq [symmetric])
  moreover have "(3::nat) = Suc (Suc (Suc 0))" by simp
  ultimately show ?thesis by (simp only:)
qed

lemma successful_run:
  assumes "cpu e = Inr c" "mem e = Inr m" "disk e = Inr d"
  shows "emitted e = report_body (repr e) (report_time e) c m d" "outcome e = Inr ()"
  using assms by (simp_all add: emitted_def outcome_def)

lemma length_report_body: "length (report_body str t c m d) = 13"
  by (simp add: report_body_def report_head_def)

lemma example_lines:
  "stamp example_env 0 (report_body (repr example_env) run_date 12 50 70) =
     [''2026-11-03 20:03:08,000 - INFO - ===== System Health Report ====='',
      ''2026-11-03 20:03:08,001 - INFO - Report generated on: 2026-11-03 20:03:07'',
      ''2026-11-03 20:03:08,002 - INFO - System Metrics:'',
      ''2026-11-03 20:03:08,003 - INFO - CPU Usage: 12.0%'',
      ''2026-11-03 20:03:08,004 - INFO - Memory Usage: 50.0%'',
      ''2026-11-03 20:03:08,005 - INFO - Disk Usage: 70.0%'',
      ''2026-11-03 20:03:08,006 - INFO - Metric Grades:'',
      ''2026-11-03 20:03:08,007 - INFO - CPU Grade: A'',
      ''2026-11-03 20:03:08,008 - INFO - Memory Grade: B'',
      ''2026-11-03 20:03:08,009 - INFO - Disk Grade: C'',
      ''2026-11-03 20:03:08,010 - INFO - Overall System Grade:'',
      ''2026-11-03 20:03:08,011 - INFO - Final Grade: B'',
      ''2026-11-03 20:03:08,012 - INFO - ===== End of Report ====='']"
  by (simp add: report_body_def report_head_def example_env_def run_date_def grade_def
      aggregate_spec_def score_def digits_2 digits_3 digits_4 digit_char_def)

lemma no_volume_lines:
  "run_lines no_volume_env =
     [''2026-11-03 20:03:08,000 - INFO - ===== System Health Report ====='',
      ''2026-11-03 20:03:08,001 - INFO - Report generated on: 2026-11-03 20:03:07'']"
  by (simp add: run_lines_eq emitted_def report_head_def no_volume_env_def example_env_def
      run_date_def digits_2 digits_3 digits_4 digit_char_def)

text \<open>
  C1. For every reading and every threshold pair with \<open>low < high\<close>, \<open>grade\<close> returns \<open>A\<close>
  below \<open>low\<close>, else \<open>B\<close> below \<open>high\<close>, else \<open>C\<close>; a reading equal to \<open>low\<close> is graded \<open>B\<close>
  and a reading equal to \<open>high\<close> is graded \<open>C\<close>. The report's three grade lines are the
  grades of the CPU, memory and disk readings under the pairs (30, 60), (50, 75) and
  (40, 70).
\<close>

theorem grade_thresholds:
  assumes "low < high" and "cpu e = Inr c" "mem e = Inr m" "disk e = Inr d"
  shows "grade v (low, high) = (if v < low then ''A'' else if v < high then ''B'' else ''C'')
       \<and> grade low (low, high) = ''B''
       \<and> grade high (low, high) = ''C''
       \<and> take 3 (drop 7 (console (snd (main e fresh)))) =
           stamp e 7 [''CPU Grade: '' @ grade c (30, 60),
                      ''Memory Grade: '' @ grade m (50, 75),
                      ''Disk Grade: '' @ grade d (40, 70)]"
proof -
  have g: "grade v (low, high) = (if v < low then ''A'' else if v < high then ''B'' else ''C'')"
    by (simp add: grade_def)
  have lo: "grade low (low, high) = ''B''"
    using assms(1) by (simp add: grade_def)
  have hi: "grade high (low, high) = ''C''"
    using assms(1) by (simp add: grade_def)
  have "console (snd (main e fresh)) = stamp e 0 (report_body (repr e) (report_time e) c m d)"
    by (simp add: main_effect fresh_def successful_run [OF assms(2-4)])
  then have "take 3 (drop 7 (console (snd (main e fresh)))) =
      stamp e 7 (take 3 (drop 7 (report_body (repr e) (report_time e) c m d)))"
    by (simp add: take_stamp drop_stamp)
  also have "take 3 (drop 7 (report_body (repr e) (report_time e) c m d)) =
      [''CPU Grade: '' @ grade c (30, 60), ''Memory Grade: '' @ grade m (50, 75),
       ''Disk Grade: '' @ grade d (40, 70)]"
    by (simp add: report_body_def report_head_def)
  finally show ?thesis using g lo hi by simp
qed

theorem grade_thresholds_witness:
  "(30 :: real) < 60 \<and> cpu example_env = Inr 12 \<and> mem example_env = Inr 50
   \<and> disk example_env = Inr 70
   \<and> grade 30 (30, 60) = ''B'' \<and> grade 60 (30, 60) = ''C''
   \<and> take 3 (drop 7 (console (snd (main example_env fresh)))) =
       [''2026-11-03 20:03:08,007 - INFO - CPU Grade: A'',
        ''2026-11-03 20:03:08,008 - INFO - Memory Grade: B'',
        ''2026-11-03 20:03:08,009 - INFO - Disk Grade: C'']"
proof -
  have h: "(30 :: real) < 60" "cpu example_env = Inr 12" "mem example_env = Inr 50"
    "disk example_env = Inr 70"
    by (simp_all add: example_env_def)
  have s: "stamp example_env 7 [''CPU Grade: '' @ grade 12 (30, 60),
                      ''Memory Grade: '' @ grade 50 (50, 75),
                      ''Disk Grade: '' @ grade 70 (40, 70)] =
       [''2026-11-03 20:03:08,007 - INFO - CPU Grade: A'',
        ''2026-11-03 20:03:08,008 - INFO - Memory Grade: B'',
        ''2026-11-03 20:03:08,009 - INFO - Disk Grade: C'']"
    by (simp add: example_env_def grade_def digits_3 digit_char_def)
  show ?thesis
    using h s grade_thresholds [OF h, of 30] by simp
qed

text \<open>
  C8. The file handler opens the log file in mode \<open>w\<close> under a name that depends on the
  calendar date only. After two runs on the same date the file holds the lines of the
  second run and nothing else: the first run's lines are gone from the file, not
  appended to, while the terminal shows both runs.
\<close>

theorem second_run_overwrites:
  assumes "year (start_time e2) = year (start_time e1)"
    and "month (start_time e2) = month (start_time e1)"
    and "day (start_time e2) = day (start_time e1)"
  shows "log_filename (start_time e2) = log_filename (start_time e1)
       \<and> files (snd (main e1 w)) (log_filename (start_time e1)) = Some (run_lines e1)
       \<and> files (snd (main e2 (snd (main e1 w)))) (log_filename (start_time e1))
             = Some (run_lines e2)
       \<and> files (snd (main e2 (snd (main e1 w)))) (log_filename (start_time e1))
             \<noteq> Some (run_lines e1 @ run_lines e2)
       \<and> console (snd (main e2 (snd (main e1 w))))
             = console w @ run_lines e1 @ run_lines e2"
proof -
  have name: "log_filename (start_time e2) = log_filename (start_time e1)"
    using assms by (rule same_date_same_file)
  have first: "files (snd (main e1 w)) (log_filename (start_time e1)) = Some (run_lines e1)"
    by (simp add: main_effect run_lines_eq)
  have second: "files (snd (main e2 (snd (main e1 w)))) (log_filename (start_time e1))
                  = Some (run_lines e2)"
    by (simp add: main_effect [of e2] run_lines_eq name)
  have both: "console (snd (main e2 (snd (main e1 w))))
                = console w @ run_lines e1 @ run_lines e2"
    by (simp add: main_effect run_lines_eq)
  have "run_lines e2 \<noteq> run_lines e1 @ run_lines e2"
    using run_lines_not_empty [of e1] by simp
  with name first second both show ?thesis by simp
qed

theorem second_run_overwrites_witness:
  "year (start_time no_volume_env) = year (start_time example_env)
   \<and> month (start_time no_volume_env) = month (start_time example_env)
   \<and> day (start_time no_volume_env) = day (start_time example_env)
   \<and> log_filename (start_time example_env) = ''20260311_system_health.log''
   \<and> length (run_lines example_env) = 13
   \<and> files (snd (main no_volume_env (snd (main example_env fresh))))
        ''20260311_system_health.log'' =
       Some [''2026-11-03 20:03:08,000 - INFO - ===== System Health Report ====='',
             ''2026-11-03 20:03:08,001 - INFO - Report generated on: 2026-11-03 20:03:07'']"
proof -
  have h: "year (start_time no_volume_env) = year (start_time example_env)"
    "month (start_time no_volume_env) = month (start_time example_env)"
    "day (start_time no_volume_env) = day (start_time example_env)"
    by (simp_all add: no_volume_env_def example_env_def)
  have n: "log_filename (start_time example_env) = ''20260311_system_health.log''"
    by (simp add: log_filename_def current_date_eq digits_4 digits_2 digit_char_def
        run_date_def example_env_def)
  have l: "length (run_lines example_env) = 13"
    by (simp add: run_lines_eq length_stamp emitted_def example_env_def length_report_body)
  show ?thesis
    using h n l second_run_overwrites [OF h, of fresh]
    by (simp add: no_volume_lines)
qed

section \<open>Failures\<close>

lemma scripted_None: "fails (length tr) = None \<Longrightarrow> scripted fails c v tr = (Inr v, tr @ [c])"
  by (simp add: scripted_def)

lemma scripted_Some: "fails (length tr) = Some x \<Longrightarrow> scripted fails c v tr = (Inl x, tr @ [c])"
  by (simp add: scripted_def)

lemma sixteen:
  "(16::nat) =
     Suc (Suc (Suc (Suc (Suc (Suc (Suc (Suc (Suc (Suc (Suc (Suc (Suc (Suc (Suc (Suc 0)))))))))))))))"
  by simp

lemma normal_run:
  assumes "\<forall>j<16. fails j = None"
  shows "generate_report (scripted_ops fails t c m d str) [] =
           (Inr (), report_calls str t c m d)"
  using assms unfolding sixteen
  by (simp add: generate_report_def scripted_ops_def bind_def lift_def scripted_def
      overall_grade_of_grades report_calls_def report_body_def report_head_def
      directive_def Let_def)

lemma below_sixteen:
  assumes "k < 16"
  shows "k = 0
       \<or> k = Suc 0
       \<or> k = Suc (Suc 0)
       \<or> k = Suc (Suc (Suc 0))
       \<or> k = Suc (Suc (Suc (Suc 0)))
       \<or> k = Suc (Suc (Suc (Suc (Suc 0))))
       \<or> k = Suc (Suc (Suc (Suc (Suc (Suc 0)))))
       \<or> k = Suc (Suc (Suc (Suc (Suc (Suc (Suc 0))))))
       \<or> k = Suc (Suc (Suc (Suc (Suc (Suc (Suc (Suc 0)))))))
       \<or> k = Suc (Suc (Suc (Suc (Suc (Suc (Suc (Suc (Suc 0))))))))
       \<or> k = Suc (Suc (Suc (Suc (Suc (Suc (Suc (Suc (Suc (Suc 0)))))))))
       \<or> k = Suc (Suc (Suc (Suc (Suc (Suc (Suc (Suc (Suc (Suc (Suc 0))))))))))
       \<or> k = Suc (Suc (Suc (Suc (Suc (Suc (Suc (Suc (Suc (Suc (Suc (Suc 0)))))))))))
       \<or> k = Suc (Suc (Suc (Suc (Suc (Suc (Suc (Suc (Suc (Suc (Suc (Suc (Suc 0))))))))))))
       \<or> k = Suc (Suc (Suc (Suc (Suc (Suc (Suc (Suc (Suc (Suc (Suc (Suc (Suc (Suc 0)))))))))))))
       \<or> k = Suc (Suc (Suc (Suc (Suc (Suc (Suc (Suc (Suc (Suc (Suc (Suc (Suc (Suc (Suc 0))))))))))))))"
  using assms unfolding sixteen by (simp add: less_Suc_eq)

lemma routine_failure_propagates:
  assumes "fails k = Some x" and "\<forall>j<k. fails j = None" and "k < 16"
  shows "generate_report (scripted_ops fails t c m d str) [] =
           (Inl x, take (Suc k) (report_calls str t c m d))"
  using below_sixteen [OF assms(3)] assms(1,2)
  by (elim disjE)
     (simp_all add: generate_report_def scripted_ops_def bind_def lift_def scripted_def
       overall_grade_of_grades report_calls_def report_body_def report_head_def
       directive_def Let_def)

lemma length_report_calls: "length (report_calls str t c m d) = 16"
  by (simp add: report_calls_def report_body_def report_head_def)

lemma faulty_logger_log_INFO:
  "faulty_logger_log e f name INFO msg w = (Inr (), call_handlers e f name INFO msg w)"
  by (simp add: faulty_logger_log_def INFO_def DEBUG_def)

lemma created_call_handlers:
  "created (call_handlers e f name levelno msg w) = Suc (created w)"
  by (simp add: call_handlers_def fh_emit_def ch_handle_def Let_def)

lemma files_call_handlers_disk_full:
  "files (call_handlers e disk_full name levelno msg w) = files w"
  by (simp add: call_handlers_def fh_emit_def ch_handle_def disk_full_def Let_def)

lemma faulty_logger_log_no_faults:
  "faulty_logger_log e no_faults name levelno = logger_log e name levelno"
  by (intro ext)
     (simp add: faulty_logger_log_def call_handlers_def fh_emit_def fh_handle_def logger_log_def
       no_faults_def Let_def)

lemma faulty_main_no_faults: "faulty_main e no_faults w = main e w"
  by (simp add: faulty_main_def main_def faulty_ops_def logging_ops_def
      faulty_logger_log_no_faults Let_def)

lemma faulty_main_result:
  "fst (faulty_main e f w) = outcome e"
  "created (snd (faulty_main e f w)) = length (emitted e)"
  by (cases "cpu e"; cases "mem e"; cases "disk e";
      simp add: faulty_main_def generate_report_def faulty_ops_def logging_ops_def bind_def
        lift_def faulty_logger_log_INFO created_call_handlers overall_grade_of_grades
        emitted_def outcome_def report_body_def report_head_def Let_def open_w_def)+

lemma example_log_name: "log_filename (start_time example_env) = ''20260311_system_health.log''"
  by (simp add: log_filename_def current_date_eq digits_4 digits_2 digit_char_def
      run_date_def example_env_def)

lemma disk_full_file:
  "files (snd (faulty_main example_env disk_full fresh)) (log_filename (start_time example_env))
     = Some []"
  by (simp add: faulty_main_def generate_report_def faulty_ops_def logging_ops_def bind_def
      lift_def faulty_logger_log_INFO files_call_handlers_disk_full overall_grade_of_grades
      Let_def open_w_def example_env_def)

text \<open>
  C9 (as stated, refuted). A failed sink write does not abort the run. With the disk
  full, every write to the log file fails; the file handler reports each failure on the
  terminal and returns, \<open>logger.info\<close> returns, and the run goes through all thirteen
  records and ends normally, leaving the log file empty.
\<close>

theorem failed_write_does_not_abort:
  "write_fails disk_full 0
   \<and> fst (faulty_main example_env disk_full fresh) = Inr ()
   \<and> created (snd (faulty_main example_env disk_full fresh)) = 13
   \<and> files (snd (faulty_main example_env disk_full fresh)) ''20260311_system_health.log''
        = Some []"
proof -
  have f: "write_fails disk_full 0"
    by (simp add: disk_full_def)
  have r: "fst (faulty_main example_env disk_full fresh) = Inr ()"
    by (simp add: faulty_main_result outcome_def example_env_def)
  have n: "created (snd (faulty_main example_env disk_full fresh)) = 13"
    by (simp add: faulty_main_result emitted_def example_env_def length_report_body)
  from f r n disk_full_file show ?thesis
    by (simp add: example_log_name)
qed

text \<open>
  C9 (amended). \<open>generate_report\<close> handles no error: whichever of its sixteen calls (the
  three metric acquisitions, the thirteen calls of \<open>logger.info\<close>) is the first to raise,
  the run ends there with that very error, and the calls made are the calls of an
  undisturbed run up to and including the failing one, so the failing call is not
  repeated and nothing is logged after it. In the program, whatever writes to the log
  file fail, the result of a run is decided by the acquisitions alone: \<open>outcome e\<close>, the
  first error among the CPU, memory and disk readings, or a normal return when there is
  none; and the records created are the thirteen of the report, or only the two logged
  before the acquisitions when one of them raises. Without faults this sink is the
  program's sink.
\<close>

theorem failure_propagates:
  assumes "fails k = Some x" and "\<forall>j<k. fails j = None" and "k < 16"
  shows "generate_report (scripted_ops fails t c m d str) [] =
           (Inl x, take (Suc k) (snd (generate_report (scripted_ops never t c m d str) [])))
       \<and> generate_report (scripted_ops never t c m d str) [] =
           (Inr (), report_calls str t c m d)
       \<and> length (report_calls str t c m d) = 16
       \<and> fst (faulty_main e f w) = outcome e
       \<and> created (snd (faulty_main e f w)) = length (emitted e)
       \<and> faulty_main e no_faults w = main e w"
proof -
  have u: "generate_report (scripted_ops never t c m d str) [] =
             (Inr (), report_calls str t c m d)"
    by (simp add: normal_run never_def)
  have p: "generate_report (scripted_ops fails t c m d str) [] =
             (Inl x, take (Suc k) (report_calls str t c m d))"
    using assms by (rule routine_failure_propagates)
  from u p show ?thesis
    by (simp add: length_report_calls faulty_main_result faulty_main_no_faults)
qed

theorem failure_propagates_witness:
  "disk_fails 4 = Some (Raised ''FileNotFoundError'') \<and> (4::nat) < 16
   \<and> generate_report (scripted_ops disk_fails run_date 12 50 70 (repr example_env)) [] =
       (Inl (Raised ''FileNotFoundError''),
        [Info ''===== System Health Report ====='',
         Info ''Report generated on: 2026-11-03 20:03:07'',
         CpuPercent 1, VirtualMemory, DiskUsage (''C:'' @ [CHR 0x5C])])
   \<and> fst (faulty_main no_volume_env disk_full fresh) = Inl (Raised ''FileNotFoundError'')
   \<and> created (snd (faulty_main no_volume_env disk_full fresh)) = 2"
proof -
  have h: "disk_fails 4 = Some (Raised ''FileNotFoundError'')" "\<forall>j<4. disk_fails j = None"
    "(4::nat) < 16"
    by (simp_all add: disk_fails_def)
  have tr: "take (Suc 4) (report_calls (repr example_env) run_date 12 50 70) =
        [Info ''===== System Health Report ====='',
         Info ''Report generated on: 2026-11-03 20:03:07'',
         CpuPercent 1, VirtualMemory, DiskUsage (''C:'' @ [CHR 0x5C])]"
    by (simp add: report_calls_def report_head_def run_date_def
        digits_2 digits_4 digit_char_def)
  have o: "outcome no_volume_env = Inl (Raised ''FileNotFoundError'')"
    "length (emitted no_volume_env) = 2"
    by (simp_all add: outcome_def emitted_def report_head_def no_volume_env_def example_env_def)
  show ?thesis
    using h(1,3) tr o
      failure_propagates [OF h, of run_date 12 50 70 "repr example_env" no_volume_env disk_full fresh]
    by simp
qed

text \<open>
  C10 (as stated, refuted). Not every run logs thirteen lines: on a host without the
  volume \<open>C:\<close> the disk reading raises after the header and the generation timestamp have
  been logged, and the run ends with those two lines.
\<close>

theorem failed_run_has_two_lines:
  "fst (main no_volume_env fresh) = Inl (Raised ''FileNotFoundError'')
   \<and> console (snd (main no_volume_env fresh)) =
       [''2026-11-03 20:03:08,000 - INFO - ===== System Health Report ====='',
        ''2026-11-03 20:03:08,001 - INFO - Report generated on: 2026-11-03 20:03:07'']
   \<and> length (console (snd (main no_volume_env fresh))) \<noteq> 13"
proof -
  have r: "fst (main no_volume_env fresh) = Inl (Raised ''FileNotFoundError'')"
    by (simp add: main_effect outcome_def no_volume_env_def example_env_def)
  have "console (snd (main no_volume_env fresh)) = run_lines no_volume_env"
    by (simp add: run_lines_def)
  with r show ?thesis by (simp add: no_volume_lines)
qed

text \<open>
  C10 (amended). For every run in which the three metric acquisitions succeed, the run
  returns normally and logs exactly thirteen lines, to the terminal and to the file, in
  this order: the header, the generation timestamp, \<open>System Metrics:\<close> and the three
  percentages (CPU, memory, disk), \<open>Metric Grades:\<close> and the three letter grades (CPU,
  memory, disk), \<open>Overall System Grade:\<close>, the final grade, and the footer, each at level
  INFO.
\<close>

theorem report_is_thirteen_lines:
  assumes "cpu e = Inr c" "mem e = Inr m" "disk e = Inr d"
  shows "fst (main e w) = Inr ()
       \<and> console (snd (main e w)) =
           console w @ stamp e 0 (report_body (repr e) (report_time e) c m d)
       \<and> files (snd (main e w)) (log_filename (start_time e)) =
           Some (stamp e 0 (report_body (repr e) (report_time e) c m d))
       \<and> length (stamp e 0 (report_body (repr e) (report_time e) c m d)) = 13"
  by (simp add: main_effect successful_run [OF assms] length_stamp length_report_body)

theorem report_is_thirteen_lines_witness:
  "cpu example_env = Inr 12 \<and> mem example_env = Inr 50 \<and> disk example_env = Inr 70
   \<and> fst (main example_env fresh) = Inr ()
   \<and> console (snd (main example_env fresh)) =
     [''2026-11-03 20:03:08,000 - INFO - ===== System Health Report ====='',
      ''2026-11-03 20:03:08,001 - INFO - Report generated on: 2026-11-03 20:03:07'',
      ''2026-11-03 20:03:08,002 - INFO - System Metrics:'',
      ''2026-11-03 20:03:08,003 - INFO - CPU Usage: 12.0%'',
      ''2026-11-03 20:03:08,004 - INFO - Memory Usage: 50.0%'',
      ''2026-11-03 20:03:08,005 - INFO - Disk Usage: 70.0%'',
      ''2026-11-03 20:03:08,006 - INFO - Metric Grades:'',
      ''2026-11-03 20:03:08,007 - INFO - CPU Grade: A'',
      ''2026-11-03 20:03:08,008 - INFO - Memory Grade: B'',
      ''2026-11-03 20:03:08,009 - INFO - Disk Grade: C'',
      ''2026-11-03 20:03:08,010 - INFO - Overall System Grade:'',
      ''2026-11-03 20:03:08,011 - INFO - Final Grade: B'',
      ''2026-11-03 20:03:08,012 - INFO - ===== End of Report ====='']"
proof -
  have h: "cpu example_env = Inr 12" "mem example_env = Inr 50" "disk example_env = Inr 70"
    by (simp_all add: example_env_def)
  have t: "report_time example_env = run_date" "console fresh = []"
    by (simp_all add: example_env_def fresh_def)
  show ?thesis
    using h report_is_thirteen_lines [OF h, of fresh]
    by (simp add: t example_lines)
qed

end
